theory Spec2Isabelle
  imports Complex_Main "HOL-Library.Sublist" "HOL-Library.AList"
begin

section \<open>Shared Python notions\<close>

text \<open>
  A Python \<open>float\<close>. The code below only compares floats and stores them (it never
  needs the rounding of an arithmetic result), so a finite float is represented by the
  real number it denotes; the two infinities and NaN are separate values. \<open>0.0\<close> and
  \<open>-0.0\<close> compare equal in Python and are the same value here.
\<close>

datatype pyfloat = Finite real | PosInf | NegInf | NaN

text \<open>Python's \<open>a < b\<close> on floats: every comparison with NaN is false.\<close>

fun py_lt :: "pyfloat \<Rightarrow> pyfloat \<Rightarrow> bool" where
  "py_lt NaN _ = False"
| "py_lt _ NaN = False"
| "py_lt (Finite a) (Finite b) = (a < b)"
| "py_lt (Finite _) PosInf = True"
| "py_lt (Finite _) NegInf = False"
| "py_lt PosInf _ = False"
| "py_lt NegInf NegInf = False"
| "py_lt NegInf _ = True"

definition py_gt :: "pyfloat \<Rightarrow> pyfloat \<Rightarrow> bool" where
  "py_gt a b = py_lt b a"

text \<open>
  The builtins \<open>min(a, b)\<close> and \<open>max(a, b)\<close>: the first argument is kept unless the
  second one is strictly smaller (respectively strictly greater).
\<close>

definition py_min :: "pyfloat \<Rightarrow> pyfloat \<Rightarrow> pyfloat" where
  "py_min a b = (if py_lt b a then b else a)"

definition py_max :: "pyfloat \<Rightarrow> pyfloat \<Rightarrow> pyfloat" where
  "py_max a b = (if py_gt b a then b else a)"

text \<open>
  JSON-like values: what a job's \<open>params\<close> and \<open>result\<close> dictionaries hold and what
  \<open>json.load\<close> returns. A dictionary is an association list read with \<open>map_of\<close>;
  the dictionaries built below have pairwise distinct keys.
\<close>

datatype jvalue =
    JNull
  | JBool bool
  | JInt int
  | JFloat pyfloat
  | JStr string
  | JList "jvalue list"
  | JDict "(string \<times> jvalue) list"

type_synonym dict = "(string \<times> jvalue) list"

text \<open>The exceptions the modelled code raises or lets through.\<close>

datatype py_exception =
    KeyError string
  | ValueError string
  | TypeError string
  | IOError string
  | OSError string

text \<open>\<open>bind_exn\<close> sequences two steps, the second one skipped when the first raises.\<close>

definition bind_exn :: "py_exception + 'a \<Rightarrow> ('a \<Rightarrow> py_exception + 'b) \<Rightarrow> py_exception + 'b" where
  "bind_exn r f = (case r of Inl e \<Rightarrow> Inl e | Inr x \<Rightarrow> f x)"

text \<open>A call into a collaborator either raises (with its message) or returns a value.\<close>

datatype 'a outcome = Raises string | Returns 'a


section \<open>Jobs (\<open>src/orchestration/jobs.py\<close>)\<close>

datatype JobStatus = PENDING | RUNNING | COMPLETED | FAILED | CANCELLED

datatype JobType =
    FULL_PIPELINE
  | VOICE_CLONE
  | VOICE_SYNTHESIS
  | AVATAR_GENERATION
  | VIDEO_LIPSYNC
  | VIDEO_ENCODING

text \<open>The \<open>.value\<close> of each enum member.\<close>

fun JobStatus_value :: "JobStatus \<Rightarrow> string" where
  "JobStatus_value PENDING = ''pending''"
| "JobStatus_value RUNNING = ''running''"
| "JobStatus_value COMPLETED = ''completed''"
| "JobStatus_value FAILED = ''failed''"
| "JobStatus_value CANCELLED = ''cancelled''"

fun JobType_value :: "JobType \<Rightarrow> string" where
  "JobType_value FULL_PIPELINE = ''full_pipeline''"
| "JobType_value VOICE_CLONE = ''voice_clone''"
| "JobType_value VOICE_SYNTHESIS = ''voice_synthesis''"
| "JobType_value AVATAR_GENERATION = ''avatar_generation''"
| "JobType_value VIDEO_LIPSYNC = ''video_lipsync''"
| "JobType_value VIDEO_ENCODING = ''video_encoding''"

text \<open>
  \<open>JobStatus(v)\<close> and \<open>JobType(v)\<close>: the member whose value is \<open>v\<close>, or ValueError.
  Only a string can equal a member of a \<open>str\<close> enum.
\<close>

definition JobStatus_of :: "jvalue \<Rightarrow> py_exception + JobStatus" where
  "JobStatus_of v =
     (case v of
        JStr s \<Rightarrow>
          (case find (\<lambda>m. JobStatus_value m = s) [PENDING, RUNNING, COMPLETED, FAILED, CANCELLED] of
             Some m \<Rightarrow> Inr m
           | None \<Rightarrow> Inl (ValueError s))
      | _ \<Rightarrow> Inl (ValueError ''not a valid JobStatus''))"

definition JobType_of :: "jvalue \<Rightarrow> py_exception + JobType" where
  "JobType_of v =
     (case v of
        JStr s \<Rightarrow>
          (case find (\<lambda>m. JobType_value m = s)
                  [FULL_PIPELINE, VOICE_CLONE, VOICE_SYNTHESIS, AVATAR_GENERATION,
                   VIDEO_LIPSYNC, VIDEO_ENCODING] of
             Some m \<Rightarrow> Inr m
           | None \<Rightarrow> Inl (ValueError s))
      | _ \<Rightarrow> Inl (ValueError ''not a valid JobType''))"

record Job =
  job_id :: string
  status :: JobStatus
  job_type :: JobType
  params :: dict
  created_at :: string
  started_at :: "string option"
  completed_at :: "string option"
  result :: "dict option"
  error :: "string option"
  progress :: pyfloat
  stage :: string

text \<open>
  \<open>utcnow_iso\<close> stands for \<open>datetime.utcnow().isoformat()\<close> at the moment of the call;
  the clock and the random source are parameters.
\<close>

definition timestamp :: "string \<Rightarrow> string" where
  "timestamp utcnow_iso = utcnow_iso @ ''Z''"

definition generate_id :: "string \<Rightarrow> string \<Rightarrow> string" where
  "generate_id utcnow_compact random_hex = ''job-'' @ utcnow_compact @ ''-'' @ random_hex"

definition create :: "string \<Rightarrow> string \<Rightarrow> string \<Rightarrow> JobType \<Rightarrow> dict \<Rightarrow> Job" where
  "create utcnow_compact random_hex utcnow_iso jt ps =
     \<lparr> job_id = generate_id utcnow_compact random_hex,
       status = PENDING,
       job_type = jt,
       params = ps,
       created_at = timestamp utcnow_iso,
       started_at = None,
       completed_at = None,
       result = None,
       error = None,
       progress = Finite 0,
       stage = ''Queued'' \<rparr>"

definition start :: "string \<Rightarrow> Job \<Rightarrow> Job" where
  "start utcnow_iso j =
     j\<lparr> status := RUNNING,
        started_at := Some (timestamp utcnow_iso),
        progress := Finite 0,
        stage := ''Starting'' \<rparr>"

definition complete :: "string \<Rightarrow> dict \<Rightarrow> Job \<Rightarrow> Job" where
  "complete utcnow_iso res j =
     j\<lparr> status := COMPLETED,
        completed_at := Some (timestamp utcnow_iso),
        result := Some res,
        progress := Finite 1,
        stage := ''Completed'' \<rparr>"

definition fail :: "string \<Rightarrow> string \<Rightarrow> Job \<Rightarrow> Job" where
  "fail utcnow_iso err j =
     j\<lparr> status := FAILED,
        completed_at := Some (timestamp utcnow_iso),
        error := Some err,
        stage := ''Failed'' \<rparr>"

definition cancel :: "string \<Rightarrow> Job \<Rightarrow> Job" where
  "cancel utcnow_iso j =
     j\<lparr> status := CANCELLED,
        completed_at := Some (timestamp utcnow_iso),
        stage := ''Cancelled'' \<rparr>"

definition update_progress :: "pyfloat \<Rightarrow> string \<Rightarrow> Job \<Rightarrow> Job" where
  "update_progress p s j =
     j\<lparr> progress := py_max (Finite 0) (py_min (Finite 1) p),
        stage := s \<rparr>"

text \<open>
  \<open>to_dict\<close>: \<open>asdict\<close> lists the fields in declaration order (copying the nested
  JSON-like values, which leaves them equal), then the two enum fields are replaced by
  their string values.
\<close>

definition opt_str :: "string option \<Rightarrow> jvalue" where
  "opt_str v = (case v of None \<Rightarrow> JNull | Some s \<Rightarrow> JStr s)"

definition opt_dict :: "dict option \<Rightarrow> jvalue" where
  "opt_dict v = (case v of None \<Rightarrow> JNull | Some d \<Rightarrow> JDict d)"

definition to_dict :: "Job \<Rightarrow> dict" where
  "to_dict j =
     [ (''job_id'', JStr (job_id j)),
       (''status'', JStr (JobStatus_value (status j))),
       (''job_type'', JStr (JobType_value (job_type j))),
       (''params'', JDict (params j)),
       (''created_at'', JStr (created_at j)),
       (''started_at'', opt_str (started_at j)),
       (''completed_at'', opt_str (completed_at j)),
       (''result'', opt_dict (result j)),
       (''error'', opt_str (error j)),
       (''progress'', JFloat (progress j)),
       (''stage'', JStr (stage j)) ]"

text \<open>
  \<open>from_dict\<close>: \<open>data["status"]\<close> and \<open>data["job_type"]\<close> raise KeyError when absent
  and ValueError when they name no enum member; \<open>Job(**data_copy)\<close> raises TypeError on
  a key that is no field and on a missing field that has no default. Python stores
  whatever value a key carries; the record is typed, so a value of another shape than
  the field's annotation is reported as a TypeError here (such a dictionary is never
  produced by \<open>to_dict\<close>).
\<close>

definition Job_fields :: "string list" where
  "Job_fields =
     [''job_id'', ''status'', ''job_type'', ''params'', ''created_at'', ''started_at'',
      ''completed_at'', ''result'', ''error'', ''progress'', ''stage'']"

definition subscript :: "dict \<Rightarrow> string \<Rightarrow> py_exception + jvalue" where
  "subscript d k = (case map_of d k of None \<Rightarrow> Inl (KeyError k) | Some v \<Rightarrow> Inr v)"

definition required :: "dict \<Rightarrow> string \<Rightarrow> py_exception + jvalue" where
  "required kw k = (case map_of kw k of None \<Rightarrow> Inl (TypeError k) | Some v \<Rightarrow> Inr v)"

definition optional :: "dict \<Rightarrow> string \<Rightarrow> jvalue \<Rightarrow> jvalue" where
  "optional kw k dflt = (case map_of kw k of None \<Rightarrow> dflt | Some v \<Rightarrow> v)"

definition as_str :: "string \<Rightarrow> jvalue \<Rightarrow> py_exception + string" where
  "as_str k v = (case v of JStr s \<Rightarrow> Inr s | _ \<Rightarrow> Inl (TypeError k))"

definition as_opt_str :: "string \<Rightarrow> jvalue \<Rightarrow> py_exception + string option" where
  "as_opt_str k v = (case v of JNull \<Rightarrow> Inr None | JStr s \<Rightarrow> Inr (Some s) | _ \<Rightarrow> Inl (TypeError k))"

definition as_dict :: "string \<Rightarrow> jvalue \<Rightarrow> py_exception + dict" where
  "as_dict k v = (case v of JDict d \<Rightarrow> Inr d | _ \<Rightarrow> Inl (TypeError k))"

definition as_opt_dict :: "string \<Rightarrow> jvalue \<Rightarrow> py_exception + dict option" where
  "as_opt_dict k v = (case v of JNull \<Rightarrow> Inr None | JDict d \<Rightarrow> Inr (Some d) | _ \<Rightarrow> Inl (TypeError k))"

definition as_float :: "string \<Rightarrow> jvalue \<Rightarrow> py_exception + pyfloat" where
  "as_float k v = (case v of JFloat f \<Rightarrow> Inr f | _ \<Rightarrow> Inl (TypeError k))"

definition Job_init :: "JobStatus \<Rightarrow> JobType \<Rightarrow> dict \<Rightarrow> py_exception + Job" where
  "Job_init st jt kw =
     (if \<not> list_all (\<lambda>k. k \<in> set Job_fields) (map fst kw)
      then Inl (TypeError ''unexpected keyword argument'')
      else
        bind_exn (bind_exn (required kw ''job_id'') (as_str ''job_id'')) (\<lambda>v_id.
        bind_exn (bind_exn (required kw ''params'') (as_dict ''params'')) (\<lambda>v_params.
        bind_exn (bind_exn (required kw ''created_at'') (as_str ''created_at'')) (\<lambda>v_created.
        bind_exn (as_opt_str ''started_at'' (optional kw ''started_at'' JNull)) (\<lambda>v_started.
        bind_exn (as_opt_str ''completed_at'' (optional kw ''completed_at'' JNull)) (\<lambda>v_completed.
        bind_exn (as_opt_dict ''result'' (optional kw ''result'' JNull)) (\<lambda>v_result.
        bind_exn (as_opt_str ''error'' (optional kw ''error'' JNull)) (\<lambda>v_error.
        bind_exn (as_float ''progress'' (optional kw ''progress'' (JFloat (Finite 0)))) (\<lambda>v_progress.
        bind_exn (as_str ''stage'' (optional kw ''stage'' (JStr ''Queued''))) (\<lambda>v_stage.
        Inr \<lparr> job_id = v_id, status = st, job_type = jt, params = v_params,
              created_at = v_created, started_at = v_started, completed_at = v_completed,
              result = v_result, error = v_error, progress = v_progress,
              stage = v_stage \<rparr>))))))))))"

definition from_dict :: "dict \<Rightarrow> py_exception + Job" where
  "from_dict data =
     bind_exn (bind_exn (subscript data ''status'') JobStatus_of) (\<lambda>st.
     bind_exn (bind_exn (subscript data ''job_type'') JobType_of) (\<lambda>jt.
     Job_init st jt data))"


text \<open>
  A lifecycle operation on a job, with the clock reading it takes, and a run of such
  operations. \<open>permitted\<close> is the discipline a caller follows: \<open>start\<close> only from
  PENDING, and no operation once the status is terminal. The methods of \<open>Job\<close> do not
  check it themselves.
\<close>

datatype job_op =
    Start string
  | Complete string dict
  | Fail string string
  | Cancel string
  | UpdateProgress pyfloat string

fun apply_op :: "Job \<Rightarrow> job_op \<Rightarrow> Job" where
  "apply_op j (Start now) = start now j"
| "apply_op j (Complete now res) = complete now res j"
| "apply_op j (Fail now err) = fail now err j"
| "apply_op j (Cancel now) = cancel now j"
| "apply_op j (UpdateProgress p s) = update_progress p s j"

fun is_terminal :: "JobStatus \<Rightarrow> bool" where
  "is_terminal COMPLETED = True"
| "is_terminal FAILED = True"
| "is_terminal CANCELLED = True"
| "is_terminal _ = False"

fun permitted :: "JobStatus \<Rightarrow> job_op \<Rightarrow> bool" where
  "permitted s (Start _) = (s = PENDING)"
| "permitted s _ = (\<not> is_terminal s)"

fun follows_lifecycle :: "Job \<Rightarrow> job_op list \<Rightarrow> bool" where
  "follows_lifecycle j [] = True"
| "follows_lifecycle j (x # xs) = (permitted (status j) x \<and> follows_lifecycle (apply_op j x) xs)"

definition run_ops :: "Job \<Rightarrow> job_op list \<Rightarrow> Job" where
  "run_ops j xs = foldl apply_op j xs"

definition result_error_ok :: "Job \<Rightarrow> bool" where
  "result_error_ok j =
     ((result j = None \<or> error j = None)
      \<and> (is_terminal (status j) \<or> (result j = None \<and> error j = None)))"



section \<open>The job store (\<open>src/orchestration/queue.py\<close>)\<close>

text \<open>
  The directory \<open>storage/jobs\<close> maps a job id to the state of the path
  \<open>{job_id}.json\<close>: no such file, a path whose \<open>exists()\<close> raises OSError (a name
  that is too long, a directory that cannot be searched), a file that is no JSON
  document, or a file with the dictionary that \<open>json.dump\<close> wrote (\<open>json.load\<close> reads
  the same JSON-like value back).
\<close>

datatype stored = Unreachable string | Garbled | Doc dict

type_synonym jobs_dir = "string \<rightharpoonup> stored"

text \<open>
  What the file system does with one write of \<open>_save_job\<close>: it succeeds, or \<open>open\<close>
  raises and the file is untouched, or \<open>json.dump\<close> raises after \<open>open(..., "w")\<close>
  has truncated the file.
\<close>

datatype write_outcome = WriteOk | OpenFails string | DumpFails string

text \<open>\<open>_save_job\<close>: every exception is re-raised as IOError.\<close>

definition save_job :: "write_outcome \<Rightarrow> jobs_dir \<Rightarrow> Job \<Rightarrow> (py_exception + unit) \<times> jobs_dir" where
  "save_job w dir job =
     (case w of
        WriteOk \<Rightarrow> (Inr (), dir(job_id job \<mapsto> Doc (to_dict job)))
      | OpenFails m \<Rightarrow> (Inl (IOError m), dir)
      | DumpFails m \<Rightarrow> (Inl (IOError m), dir(job_id job \<mapsto> Garbled)))"

text \<open>\<open>submit\<close> does not catch: an IOError of \<open>_save_job\<close> reaches the caller.\<close>

definition submit ::
  "write_outcome \<Rightarrow> string \<Rightarrow> string \<Rightarrow> string \<Rightarrow> jobs_dir \<Rightarrow> JobType \<Rightarrow> dict
     \<Rightarrow> (py_exception + string) \<times> jobs_dir" where
  "submit w utcnow_compact random_hex utcnow_iso dir jt ps =
     (let job = create utcnow_compact random_hex utcnow_iso jt ps;
          (saved, dir') = save_job w dir job
      in (case saved of Inl e \<Rightarrow> Inl e | Inr _ \<Rightarrow> Inr (job_id job), dir'))"

text \<open>
  \<open>get\<close>: \<open>job_file.exists()\<close> stands before the \<open>try\<close>, so its OSError reaches
  the caller; None when the file is absent and when reading or decoding it raises.
  A file whose values do not fit the annotations of \<open>Job\<close> is outside the typed
  record (see \<open>Job_init\<close>) and is treated like one that cannot be decoded.
\<close>

definition get :: "jobs_dir \<Rightarrow> string \<Rightarrow> py_exception + Job option" where
  "get dir jid =
     (case dir jid of
        None \<Rightarrow> Inr None
      | Some (Unreachable m) \<Rightarrow> Inl (OSError m)
      | Some Garbled \<Rightarrow> Inr None
      | Some (Doc data) \<Rightarrow>
          (case from_dict data of Inl _ \<Rightarrow> Inr None | Inr job \<Rightarrow> Inr (Some job)))"

text \<open>\<open>update\<close> turns the IOError into the answer False.\<close>

definition update :: "write_outcome \<Rightarrow> jobs_dir \<Rightarrow> Job \<Rightarrow> bool \<times> jobs_dir" where
  "update w dir job =
     (let (saved, dir') = save_job w dir job
      in (case saved of Inl _ \<Rightarrow> False | Inr _ \<Rightarrow> True, dir'))"

text \<open>
  \<open>JobQueue.cancel\<close> (the method of the queue; \<open>cancel\<close> above is the method of the
  job). An exception of \<open>get\<close> is not caught. The answer of \<open>self.update(job)\<close> is
  not read.
\<close>

definition JobQueue_cancel ::
  "write_outcome \<Rightarrow> string \<Rightarrow> jobs_dir \<Rightarrow> string \<Rightarrow> (py_exception + bool) \<times> jobs_dir" where
  "JobQueue_cancel w utcnow_iso dir jid =
     (case get dir jid of
        Inl e \<Rightarrow> (Inl e, dir)
      | Inr None \<Rightarrow> (Inr False, dir)
      | Inr (Some job) \<Rightarrow>
          if status job \<noteq> PENDING then (Inr False, dir)
          else (let job' = cancel utcnow_iso job;
                    (updated, dir') = update w dir job'
                in (Inr True, dir')))"

text \<open>A pending job as \<open>submit\<close> stores it, and the directory that holds only it.\<close>

definition pending_job :: Job where
  "pending_job =
     create ''20240101000000'' ''0a1b2c3d'' ''2024-01-01T00:00:00'' FULL_PIPELINE
       [(''text'', JStr ''hello'')]"

definition one_pending :: jobs_dir where
  "one_pending = [''job-20240101000000-0a1b2c3d'' \<mapsto> Doc (to_dict pending_job)]"

section \<open>The VRAM ledger (\<open>src/utils/vram.py\<close>)\<close>

text \<open>
  \<open>utilization_percent\<close> is a float computed by a division; it is kept as the exact
  quotient, its binary rounding is not represented, and nothing below reads it.
\<close>

record VRAMStatus =
  total_mb :: int
  used_mb :: int
  free_mb :: int
  utilization_percent :: real
  cuda_available :: bool

text \<open>
  The manager's private attributes \<open>_torch\<close> (here: whether the module was imported)
  and \<open>_cuda_available\<close>, set once by the constructor.
\<close>

record VRAMManager =
  device_id :: int
  priv_torch :: bool
  priv_cuda_available :: bool

text \<open>
  \<open>__init__\<close>: \<open>is_available\<close> is None when importing torch raises ImportError, and
  otherwise the answer of \<open>torch.cuda.is_available()\<close>.
\<close>

definition VRAMManager_init :: "int \<Rightarrow> bool option \<Rightarrow> VRAMManager" where
  "VRAMManager_init dev is_available =
     (case is_available of
        None \<Rightarrow> \<lparr> device_id = dev, priv_torch = False, priv_cuda_available = False \<rparr>
      | Some b \<Rightarrow> \<lparr> device_id = dev, priv_torch = True, priv_cuda_available = b \<rparr>)"

definition no_cuda_status :: VRAMStatus where
  "no_cuda_status =
     \<lparr> total_mb = 0, used_mb = 0, free_mb = 0, utilization_percent = 0,
       cuda_available = False \<rparr>"

text \<open>
  \<open>get_status\<close>: \<open>mem_get_info\<close> is what \<open>torch.cuda.mem_get_info(device_id)\<close> does
  at this call, a pair \<open>(free, total)\<close> in bytes or an exception. \<open>//\<close> is floor
  division.
\<close>

definition get_status :: "VRAMManager \<Rightarrow> (int \<times> int) outcome \<Rightarrow> VRAMStatus" where
  "get_status m mem_get_info =
     (if \<not> priv_cuda_available m \<or> \<not> priv_torch m then no_cuda_status
      else
        (case mem_get_info of
           Raises _ \<Rightarrow> no_cuda_status
         | Returns (mem_free, mem_total) \<Rightarrow>
             (let total = mem_total div (1024 * 1024);
                  free = mem_free div (1024 * 1024);
                  used = total - free;
                  utilization =
                    (if total > 0 then real_of_int used / real_of_int total * 100 else 0)
              in \<lparr> total_mb = total, used_mb = used, free_mb = free,
                   utilization_percent = utilization, cuda_available = True \<rparr>)))"

definition can_load :: "VRAMManager \<Rightarrow> (int \<times> int) outcome \<Rightarrow> int \<Rightarrow> int \<Rightarrow> bool" where
  "can_load m mem_get_info required_mb safety_margin_mb =
     (if \<not> priv_cuda_available m then True
      else
        (let st = get_status m mem_get_info;
             available_mb = free_mb st - safety_margin_mb;
             can_allocate = (available_mb \<ge> required_mb)
         in can_allocate))"

text \<open>The default of the parameter \<open>safety_margin_mb\<close>.\<close>

definition default_safety_margin_mb :: int where
  "default_safety_margin_mb = 512"

text \<open>A manager on a CUDA device, one in CPU mode, and a device with 4096 MB free of 8192 MB.\<close>

definition gpu_manager :: VRAMManager where
  "gpu_manager = VRAMManager_init 0 (Some True)"

definition cpu_manager :: VRAMManager where
  "cpu_manager = VRAMManager_init 0 (Some False)"

definition device_4096_free :: "(int \<times> int) outcome" where
  "device_4096_free = Returns (4096 * 1024 * 1024, 8192 * 1024 * 1024)"

section \<open>The pipeline coordinator (\<open>src/orchestration/coordinator.py\<close>)\<close>

text \<open>
  The result records of the collaborators, with the fields of the dataclasses in
  \<open>voice/interfaces.py\<close>, \<open>avatar/interfaces.py\<close> and \<open>video/interfaces.py\<close>. Fields of
  different dataclasses share names in the source; here each carries a prefix. A path
  is a string.
\<close>

record VoiceProfile =
  vp_profile_id :: string
  vp_name :: string
  vp_language :: string
  vp_embedding_path :: string
  vp_reference_audio_path :: string
  vp_created_at :: string
  vp_metadata :: dict

record SynthesisResult =
  syn_success :: bool
  syn_audio_path :: "string option"
  syn_duration_seconds :: pyfloat
  syn_error :: "string option"
  syn_processing_time_seconds :: pyfloat

record FaceDetectionResult =
  detected :: bool
  face_region :: "dict option"
  landmarks :: "dict option"
  confidence :: pyfloat
  det_error :: "string option"

record LipSyncResult =
  lip_success :: bool
  lip_video_path :: "string option"
  lip_duration_seconds :: pyfloat
  lip_frame_count :: int
  lip_fps :: int
  lip_resolution :: "int \<times> int"
  lip_error :: "string option"
  lip_processing_time_seconds :: pyfloat

record EncodingResult =
  enc_success :: bool
  enc_output_path :: "string option"
  enc_file_size_bytes :: int
  enc_duration_seconds :: pyfloat
  enc_error :: "string option"
  enc_processing_time_seconds :: pyfloat

record PipelineConfig =
  max_video_length_seconds :: int
  output_format :: string
  cleanup_intermediates :: bool
  video_quality :: string
  video_fps :: "int option"
  encoding_preset :: string
  encoding_crf :: int

text \<open>\<open>PipelineConfig()\<close>, the configuration used when the caller passes none.\<close>

definition PipelineConfig_default :: PipelineConfig where
  "PipelineConfig_default =
     \<lparr> max_video_length_seconds = 120,
       output_format = ''mp4'',
       cleanup_intermediates = True,
       video_quality = ''high'',
       video_fps = None,
       encoding_preset = ''medium'',
       encoding_crf = 23 \<rparr>"

text \<open>
  The exceptions that end the \<open>try\<close> block of \<open>execute\<close>: one constructor for each
  \<open>raise\<close> of the method, \<open>Raised\<close> for an exception that escapes a collaborator, and
  \<open>StatRaised\<close> for the OSError of \<open>Path.exists()\<close> that escapes \<open>_cleanup_files\<close>
  in stage 6.
  The result's \<open>error\<close> is \<open>str(e)\<close>; the exception value stands for that text.
\<close>

datatype pipeline_exception =
    Raised string
  | StatRaised string
  | SpeechSynthesisFailed "string option"
  | AudioTooLong pyfloat int
  | AvatarImageNotFound string
  | NoFaceDetected
  | AvatarFaceValidationFailed string
  | LipSyncGenerationFailed "string option"
  | VideoEncodingFailed "string option"

record PipelineResult =
  success :: bool
  pr_job_id :: "string option"
  output_path :: "string option"
  duration_seconds :: pyfloat
  stages_completed :: "string list"
  pr_error :: "pipeline_exception option"
  processing_time_seconds :: pyfloat
  intermediate_files :: "(string \<times> string option) list option"

text \<open>
  The collaborators of one run. Each is called at most once per run, so it is given by
  what that call does: it raises or it returns a value. Constructing an adapter and
  calling it are one step. \<open>elapsed\<close> is \<open>time.time() - start_time\<close> when the result
  is built.
\<close>

record collaborators =
  load_profile_out :: "VoiceProfile outcome"
  synthesize_out :: "SynthesisResult outcome"
  avatar_exists_out :: "bool outcome"
  detect_out :: "FaceDetectionResult outcome"
  validate_for_lipsync_out :: "(bool \<times> string) outcome"
  generate_out :: "LipSyncResult outcome"
  mkdir_out :: "unit outcome"
  encode_out :: "EncodingResult outcome"
  elapsed :: pyfloat

text \<open>The calls into collaborators that a run attempts, in order.\<close>

datatype call =
    CallLoadProfile
  | CallSynthesize
  | CallAvatarExists
  | CallDetect
  | CallValidateForLipsync
  | CallGenerate
  | CallMkdir
  | CallEncode

text \<open>
  The local variables \<open>stages_completed\<close> and \<open>intermediate_files\<close> of \<open>execute\<close>,
  which survive into the \<open>except\<close> branch, and the calls attempted so far.
  \<open>AList.update\<close> is the dictionary assignment \<open>d[k] = v\<close>.
\<close>

record run_state =
  stages :: "string list"
  files :: "(string \<times> string option) list"
  calls :: "call list"

text \<open>
  The files on disk during one run: the paths that exist, those whose \<open>unlink\<close>
  raises, and those whose \<open>exists()\<close> raises OSError (\<open>Path.exists\<close> passes on every
  error of \<open>stat\<close> other than a missing file, such as a directory without search
  permission or an I/O error).

  \<open>_cleanup_files\<close> walks the recorded paths in order. \<open>exists()\<close> stands outside
  the \<open>try\<close>, so its OSError ends the loop and leaves the method; a failed deletion is
  inside the \<open>try\<close>, is logged, and the loop goes on. The answer is the path at which
  \<open>exists()\<close> raised, if any, and the disk as the loop left it.
\<close>

record disk =
  existing :: "string list"
  undeletable :: "string list"
  unreadable :: "string list"

fun cleanup_files :: "disk \<Rightarrow> (string \<times> string option) list \<Rightarrow> string option \<times> disk" where
  "cleanup_files d [] = (None, d)"
| "cleanup_files d ((category, file_path) # rest) =
     (case file_path of
        None \<Rightarrow> cleanup_files d rest
      | Some p \<Rightarrow>
          if p \<in> set (unreadable d) then (Some p, d)
          else if p \<in> set (existing d) then
            (if p \<in> set (undeletable d) then cleanup_files d rest
             else cleanup_files (d\<lparr>existing := removeAll p (existing d)\<rparr>) rest)
          else cleanup_files d rest)"

text \<open>Stage 5: create the output directory, encode, record the stage.\<close>

definition stage5_encode ::
  "collaborators \<Rightarrow> run_state \<Rightarrow> (pipeline_exception + EncodingResult) \<times> run_state" where
  "stage5_encode env st =
     (let st1 = st\<lparr>calls := calls st @ [CallMkdir]\<rparr> in
      case mkdir_out env of
        Raises m \<Rightarrow> (Inl (Raised m), st1)
      | Returns _ \<Rightarrow>
          (let st2 = st1\<lparr>calls := calls st1 @ [CallEncode]\<rparr> in
           case encode_out env of
             Raises m \<Rightarrow> (Inl (Raised m), st2)
           | Returns encoding_result \<Rightarrow>
               if \<not> enc_success encoding_result
               then (Inl (VideoEncodingFailed (enc_error encoding_result)), st2)
               else (Inr encoding_result,
                     st2\<lparr>stages := stages st2 @ [''encode_video'']\<rparr>)))"

text \<open>Stage 4: generate the lip-sync video, record its path and the stage.\<close>

definition stage4_lipsync ::
  "collaborators \<Rightarrow> run_state \<Rightarrow> (pipeline_exception + EncodingResult) \<times> run_state" where
  "stage4_lipsync env st =
     (let st1 = st\<lparr>calls := calls st @ [CallGenerate]\<rparr> in
      case generate_out env of
        Raises m \<Rightarrow> (Inl (Raised m), st1)
      | Returns lipsync_result \<Rightarrow>
          if \<not> lip_success lipsync_result
          then (Inl (LipSyncGenerationFailed (lip_error lipsync_result)), st1)
          else stage5_encode env
                 (st1\<lparr>files := AList.update ''lipsync'' (lip_video_path lipsync_result) (files st1),
                      stages := stages st1 @ [''generate_lipsync'']\<rparr>))"

text \<open>Stage 3: the avatar image must exist, show a face, and pass the validation.\<close>

definition stage3_validate ::
  "collaborators \<Rightarrow> string \<Rightarrow> run_state \<Rightarrow> (pipeline_exception + EncodingResult) \<times> run_state" where
  "stage3_validate env avatar_image st =
     (let st1 = st\<lparr>calls := calls st @ [CallAvatarExists]\<rparr> in
      case avatar_exists_out env of
        Raises m \<Rightarrow> (Inl (Raised m), st1)
      | Returns exists \<Rightarrow>
          if \<not> exists then (Inl (AvatarImageNotFound avatar_image), st1)
          else
            (let st2 = st1\<lparr>calls := calls st1 @ [CallDetect]\<rparr> in
             case detect_out env of
               Raises m \<Rightarrow> (Inl (Raised m), st2)
             | Returns detection \<Rightarrow>
                 if \<not> detected detection then (Inl NoFaceDetected, st2)
                 else
                   (let st3 = st2\<lparr>calls := calls st2 @ [CallValidateForLipsync]\<rparr> in
                    case validate_for_lipsync_out env of
                      Raises m \<Rightarrow> (Inl (Raised m), st3)
                    | Returns (is_valid, message) \<Rightarrow>
                        if \<not> is_valid then (Inl (AvatarFaceValidationFailed message), st3)
                        else stage4_lipsync env
                               (st3\<lparr>stages := stages st3 @ [''validate_avatar'']\<rparr>))))"

text \<open>
  Stage 2: synthesise, record the audio path and the stage, then compare the duration
  with the configured maximum (a float against an int, compared exactly).
\<close>

definition stage2_synthesize ::
  "collaborators \<Rightarrow> PipelineConfig \<Rightarrow> string \<Rightarrow> run_state
     \<Rightarrow> (pipeline_exception + EncodingResult) \<times> run_state" where
  "stage2_synthesize env config avatar_image st =
     (let st1 = st\<lparr>calls := calls st @ [CallSynthesize]\<rparr> in
      case synthesize_out env of
        Raises m \<Rightarrow> (Inl (Raised m), st1)
      | Returns synthesis_result \<Rightarrow>
          if \<not> syn_success synthesis_result
          then (Inl (SpeechSynthesisFailed (syn_error synthesis_result)), st1)
          else
            (let st2 = st1\<lparr>files := AList.update ''audio'' (syn_audio_path synthesis_result) (files st1),
                           stages := stages st1 @ [''synthesize_speech'']\<rparr> in
             if py_gt (syn_duration_seconds synthesis_result)
                      (Finite (real_of_int (max_video_length_seconds config)))
             then (Inl (AudioTooLong (syn_duration_seconds synthesis_result)
                          (max_video_length_seconds config)), st2)
             else stage3_validate env avatar_image st2))"

text \<open>Stage 1 and with it the whole \<open>try\<close> block up to the last stage.\<close>

definition stage1_load_profile ::
  "collaborators \<Rightarrow> PipelineConfig \<Rightarrow> string \<Rightarrow> (pipeline_exception + EncodingResult) \<times> run_state" where
  "stage1_load_profile env config avatar_image =
     (let st1 = \<lparr>stages = [], files = [], calls = [CallLoadProfile]\<rparr> in
      case load_profile_out env of
        Raises m \<Rightarrow> (Inl (Raised m), st1)
      | Returns voice_profile \<Rightarrow>
          stage2_synthesize env config avatar_image
            (st1\<lparr>stages := stages st1 @ [''load_profile'']\<rparr>))"

text \<open>
  The \<open>except\<close> branch of \<open>execute\<close>: when the map of intermediate files is not
  empty and the configuration asks for cleanup, the files are deleted first, and an
  OSError of that cleanup leaves \<open>execute\<close>; otherwise the failure result is returned,
  always without the map.
\<close>

definition failure_result :: "collaborators \<Rightarrow> pipeline_exception \<Rightarrow> run_state \<Rightarrow> PipelineResult" where
  "failure_result env e st =
     \<lparr> success = False,
       pr_job_id = None,
       output_path = None,
       duration_seconds = Finite 0,
       stages_completed = stages st,
       pr_error = Some e,
       processing_time_seconds = elapsed env,
       intermediate_files = None \<rparr>"

definition except_handler ::
  "collaborators \<Rightarrow> PipelineConfig \<Rightarrow> disk \<Rightarrow> pipeline_exception \<Rightarrow> run_state
     \<Rightarrow> (py_exception + PipelineResult) \<times> call list \<times> disk" where
  "except_handler env config d e st =
     (if files st \<noteq> [] \<and> cleanup_intermediates config then
        (case cleanup_files d (files st) of
           (Some p, d1) \<Rightarrow> (Inl (OSError p), calls st, d1)
         | (None, d1) \<Rightarrow> (Inr (failure_result env e st), calls st, d1))
      else (Inr (failure_result env e st), calls st, d))"

text \<open>
  \<open>execute\<close>: what it returns or raises, the calls attempted and the disk afterwards.
  After the last stage (stage 6, still inside the \<open>try\<close>) the intermediates are deleted
  and the map dropped when the configuration asks for cleanup; an OSError of that
  cleanup is caught by the \<open>except\<close> branch like any other exception.
\<close>

definition execute ::
  "collaborators \<Rightarrow> disk \<Rightarrow> string \<Rightarrow> string \<Rightarrow> string \<Rightarrow> string \<Rightarrow> PipelineConfig option
     \<Rightarrow> (py_exception + PipelineResult) \<times> call list \<times> disk" where
  "execute env d text voice_profile_id avatar_image out_path config_opt =
     (let config = (case config_opt of None \<Rightarrow> PipelineConfig_default | Some c \<Rightarrow> c);
          (ended, st) = stage1_load_profile env config avatar_image
      in case ended of
           Inl e \<Rightarrow> except_handler env config d e st
         | Inr encoding_result \<Rightarrow>
             (let (stage6, d1) =
                    (if cleanup_intermediates config then cleanup_files d (files st)
                     else (None, d))
              in case stage6 of
                   Some p \<Rightarrow> except_handler env config d1 (StatRaised p) st
                 | None \<Rightarrow>
                     (Inr \<lparr> success = True,
                            pr_job_id = None,
                            output_path = Some out_path,
                            duration_seconds = enc_duration_seconds encoding_result,
                            stages_completed = stages st,
                            pr_error = None,
                            processing_time_seconds = elapsed env,
                            intermediate_files =
                              (if cleanup_intermediates config then None
                               else Some (files st)) \<rparr>,
                      calls st, d1)))"

text \<open>The paths a run has recorded in \<open>intermediate_files\<close> when it ends.\<close>

definition recorded_files :: "collaborators \<Rightarrow> PipelineConfig \<Rightarrow> string \<Rightarrow> (string \<times> string option) list" where
  "recorded_files env config avatar_image = files (snd (stage1_load_profile env config avatar_image))"

text \<open>
  Collaborators of a run in which every stage succeeds, with 8 seconds of audio, and
  of a run in which the synthesis produces 15 seconds of audio.
\<close>

definition sample_profile :: VoiceProfile where
  "sample_profile =
     \<lparr> vp_profile_id = ''vp-12345678'', vp_name = ''narrator'', vp_language = ''en'',
       vp_embedding_path = ''storage/vp-12345678/embedding.pt'',
       vp_reference_audio_path = ''storage/vp-12345678/reference.wav'',
       vp_created_at = ''2024-01-01T00:00:00Z'', vp_metadata = [] \<rparr>"

definition audio_of :: "real \<Rightarrow> SynthesisResult" where
  "audio_of seconds =
     \<lparr> syn_success = True, syn_audio_path = Some ''temp/speech_1.wav'',
       syn_duration_seconds = Finite seconds, syn_error = None,
       syn_processing_time_seconds = Finite 3 \<rparr>"

definition all_succeed :: "real \<Rightarrow> collaborators" where
  "all_succeed seconds =
     \<lparr> load_profile_out = Returns sample_profile,
       synthesize_out = Returns (audio_of seconds),
       avatar_exists_out = Returns True,
       detect_out = Returns \<lparr> detected = True, face_region = None, landmarks = None,
                              confidence = Finite 0.9, det_error = None \<rparr>,
       validate_for_lipsync_out = Returns (True, ''Face is suitable''),
       generate_out = Returns \<lparr> lip_success = True, lip_video_path = Some ''temp/lipsync_1.mp4'',
                                lip_duration_seconds = Finite seconds, lip_frame_count = 200,
                                lip_fps = 25, lip_resolution = (512, 512), lip_error = None,
                                lip_processing_time_seconds = Finite 40 \<rparr>,
       mkdir_out = Returns (),
       encode_out = Returns \<lparr> enc_success = True, enc_output_path = Some ''out/video.mp4'',
                              enc_file_size_bytes = 1048576, enc_duration_seconds = Finite seconds,
                              enc_error = None, enc_processing_time_seconds = Finite 4 \<rparr>,
       elapsed = Finite 50 \<rparr>"

definition temp_disk :: disk where
  "temp_disk =
     \<lparr> existing = [''temp/speech_1.wav'', ''temp/lipsync_1.mp4''], undeletable = [],
       unreadable = [] \<rparr>"

text \<open>The same disk after the directory \<open>temp\<close> has lost its search permission.\<close>

definition locked_temp_disk :: disk where
  "locked_temp_disk =
     \<lparr> existing = [''temp/speech_1.wav'', ''temp/lipsync_1.mp4''], undeletable = [],
       unreadable = [''temp/speech_1.wav'', ''temp/lipsync_1.mp4''] \<rparr>"


definition keep_intermediates :: PipelineConfig where
  "keep_intermediates = PipelineConfig_default\<lparr>cleanup_intermediates := False\<rparr>"

definition max_10_seconds :: PipelineConfig where
  "max_10_seconds = PipelineConfig_default\<lparr>max_video_length_seconds := 10\<rparr>"










text \<open>The first recorded path whose \<open>exists()\<close> raises, given the unreadable paths.\<close>

fun first_unreadable :: "string list \<Rightarrow> (string \<times> string option) list \<Rightarrow> string option" where
  "first_unreadable bad [] = None"
| "first_unreadable bad ((category, file_path) # rest) =
     (case file_path of
        None \<Rightarrow> first_unreadable bad rest
      | Some p \<Rightarrow> if p \<in> set bad then Some p else first_unreadable bad rest)"

section \<open>Properties of jobs\<close>

lemma JobStatus_of_value: "JobStatus_of (JStr (JobStatus_value s)) = Inr s"
  by (cases s) (simp_all add: JobStatus_of_def)

lemma JobType_of_value: "JobType_of (JStr (JobType_value t)) = Inr t"
  by (cases t) (simp_all add: JobType_of_def)

lemma Job_init_to_dict: "Job_init (status j) (job_type j) (to_dict j) = Inr j"
  by (simp add: Job_init_def to_dict_def Job_fields_def bind_exn_def required_def optional_def
      as_str_def as_opt_str_def as_dict_def as_opt_dict_def as_float_def opt_str_def opt_dict_def
      split: option.splits)

lemma from_dict_inverse: "from_dict (to_dict j) = Inr j"
proof -
  have s: "bind_exn (subscript (to_dict j) ''status'') JobStatus_of = Inr (status j)"
    by (simp add: subscript_def to_dict_def bind_exn_def JobStatus_of_value)
  have t: "bind_exn (subscript (to_dict j) ''job_type'') JobType_of = Inr (job_type j)"
    by (simp add: subscript_def to_dict_def bind_exn_def JobType_of_value)
  show ?thesis
    unfolding from_dict_def s t by (simp add: bind_exn_def Job_init_to_dict)
qed

text \<open>
  C5. Deserialising the dictionary form of a job gives back the job, equal in every
  field, whatever the fields hold (absent result, error and timestamps included).
\<close>

theorem from_dict_to_dict: "from_dict (to_dict j) = Inr j"
  by (rule from_dict_inverse)

lemma py_clamp_finite:
  "py_max (Finite 0) (py_min (Finite 1) (Finite x)) = Finite (max 0 (min 1 x))"
  by (auto simp: py_max_def py_min_def py_gt_def)

lemma py_clamp_range:
  "\<exists>r. py_max (Finite 0) (py_min (Finite 1) v) = Finite r \<and> 0 \<le> r \<and> r \<le> 1"
  by (cases v) (auto simp: py_max_def py_min_def py_gt_def)

text \<open>
  C7. \<open>update_progress\<close> replaces the stage label and stores the input clamped into
  [0, 1]: the stored progress is a finite number between 0 and 1 for every float
  (infinities and NaN included), it is \<open>max 0 (min 1 x)\<close> for a finite input \<open>x\<close>,
  it is 0.0 for -5 and 1.0 for 5, and it is 1.0 for \<open>inf\<close>, 0.0 for \<open>-inf\<close> and 1.0
  for NaN.
\<close>

theorem update_progress_clamps:
  "stage (update_progress v l j) = l
   \<and> (\<exists>r. progress (update_progress v l j) = Finite r \<and> 0 \<le> r \<and> r \<le> 1)
   \<and> progress (update_progress (Finite x) l j) = Finite (max 0 (min 1 x))
   \<and> progress (update_progress (Finite (-5)) ''x'' j) = Finite 0
   \<and> progress (update_progress (Finite 5) ''x'' j) = Finite 1
   \<and> progress (update_progress PosInf l j) = Finite 1
   \<and> progress (update_progress NegInf l j) = Finite 0
   \<and> progress (update_progress NaN l j) = Finite 1"
  using py_clamp_range [of v]
  by (simp add: update_progress_def py_clamp_finite) (simp add: py_max_def py_min_def py_gt_def)

text \<open>
  C10. \<open>fail\<close> sets the status to FAILED, sets \<open>completed_at\<close> and stores the error;
  the progress keeps the value it had, and the id, type, parameters, creation and start
  timestamps and the result are unchanged.
\<close>

theorem fail_frame:
  "status (fail now err j) = FAILED
   \<and> completed_at (fail now err j) = Some (timestamp now)
   \<and> error (fail now err j) = Some err
   \<and> progress (fail now err j) = progress j
   \<and> job_id (fail now err j) = job_id j
   \<and> job_type (fail now err j) = job_type j
   \<and> params (fail now err j) = params j
   \<and> created_at (fail now err j) = created_at j
   \<and> started_at (fail now err j) = started_at j
   \<and> result (fail now err j) = result j"
  by (simp add: fail_def)

lemma result_error_ok_create: "result_error_ok (create c r n jt ps)"
  by (simp add: result_error_ok_def create_def)

lemma result_error_ok_step:
  "result_error_ok j \<Longrightarrow> permitted (status j) x \<Longrightarrow> result_error_ok (apply_op j x)"
  by (cases x; cases "status j")
     (auto simp: result_error_ok_def start_def complete_def fail_def cancel_def
        update_progress_def)

lemma follows_lifecycle_take: "follows_lifecycle j xs \<Longrightarrow> follows_lifecycle j (take n xs)"
  by (induction xs arbitrary: j n) (auto simp: take_Cons split: nat.splits)

lemma result_error_ok_run:
  "result_error_ok j \<Longrightarrow> follows_lifecycle j xs \<Longrightarrow> result_error_ok (run_ops j xs)"
  unfolding run_ops_def
  by (induction xs arbitrary: j) (auto intro: result_error_ok_step)

text \<open>
  C9. Take a freshly created job and any sequence of lifecycle operations that follows
  the state machine (\<open>start\<close> only while pending, \<open>complete\<close>, \<open>fail\<close>, \<open>cancel\<close> and
  \<open>update_progress\<close> only before a terminal status). After every prefix of the sequence
  the result and the error are not both set, and both are absent as long as the status
  is not terminal.
\<close>

theorem result_error_exclusive:
  assumes "follows_lifecycle (create c r n jt ps) xs"
  shows "\<not> (result (run_ops (create c r n jt ps) (take k xs)) \<noteq> None
            \<and> error (run_ops (create c r n jt ps) (take k xs)) \<noteq> None)
         \<and> (\<not> is_terminal (status (run_ops (create c r n jt ps) (take k xs)))
              \<longrightarrow> result (run_ops (create c r n jt ps) (take k xs)) = None
                  \<and> error (run_ops (create c r n jt ps) (take k xs)) = None)"
proof -
  have "result_error_ok (run_ops (create c r n jt ps) (take k xs))"
    using assms by (intro result_error_ok_run result_error_ok_create follows_lifecycle_take)
  then show ?thesis
    by (auto simp: result_error_ok_def)
qed

theorem result_error_exclusive_witness:
  "follows_lifecycle
     (create ''20240101000000'' ''0a1b2c3d'' ''2024-01-01T00:00:00'' FULL_PIPELINE [])
     [Start ''t1'', UpdateProgress (Finite (1/2)) ''Synthesizing'', Fail ''t2'' ''boom'']
   \<and> \<not> is_terminal (status (run_ops
       (create ''20240101000000'' ''0a1b2c3d'' ''2024-01-01T00:00:00'' FULL_PIPELINE [])
       (take 2 [Start ''t1'', UpdateProgress (Finite (1/2)) ''Synthesizing'',
                Fail ''t2'' ''boom''])))
   \<and> result (run_ops
       (create ''20240101000000'' ''0a1b2c3d'' ''2024-01-01T00:00:00'' FULL_PIPELINE [])
       (take 2 [Start ''t1'', UpdateProgress (Finite (1/2)) ''Synthesizing'',
                Fail ''t2'' ''boom''])) = None
   \<and> error (run_ops
       (create ''20240101000000'' ''0a1b2c3d'' ''2024-01-01T00:00:00'' FULL_PIPELINE [])
       (take 2 [Start ''t1'', UpdateProgress (Finite (1/2)) ''Synthesizing'',
                Fail ''t2'' ''boom''])) = None
   \<and> error (run_ops
       (create ''20240101000000'' ''0a1b2c3d'' ''2024-01-01T00:00:00'' FULL_PIPELINE [])
       (take 3 [Start ''t1'', UpdateProgress (Finite (1/2)) ''Synthesizing'',
                Fail ''t2'' ''boom''])) = Some ''boom''
   \<and> result (run_ops
       (create ''20240101000000'' ''0a1b2c3d'' ''2024-01-01T00:00:00'' FULL_PIPELINE [])
       (take 3 [Start ''t1'', UpdateProgress (Finite (1/2)) ''Synthesizing'',
                Fail ''t2'' ''boom''])) = None"
proof -
  have h: "follows_lifecycle
     (create ''20240101000000'' ''0a1b2c3d'' ''2024-01-01T00:00:00'' FULL_PIPELINE [])
     [Start ''t1'', UpdateProgress (Finite (1/2)) ''Synthesizing'', Fail ''t2'' ''boom'']"
    by (simp add: create_def start_def update_progress_def fail_def)
  have running: "\<not> is_terminal (status (run_ops
       (create ''20240101000000'' ''0a1b2c3d'' ''2024-01-01T00:00:00'' FULL_PIPELINE [])
       (take 2 [Start ''t1'', UpdateProgress (Finite (1/2)) ''Synthesizing'',
                Fail ''t2'' ''boom''])))"
    by (simp add: run_ops_def create_def start_def update_progress_def)
  have failed: "error (run_ops
       (create ''20240101000000'' ''0a1b2c3d'' ''2024-01-01T00:00:00'' FULL_PIPELINE [])
       (take 3 [Start ''t1'', UpdateProgress (Finite (1/2)) ''Synthesizing'',
                Fail ''t2'' ''boom''])) = Some ''boom''"
    by (simp add: run_ops_def create_def start_def update_progress_def fail_def)
  show ?thesis
    using h running failed
      result_error_exclusive [OF h, of 2] result_error_exclusive [OF h, of 3]
    by blast
qed


section \<open>Properties of the job store\<close>

lemma get_after_save:
  "save_job WriteOk dir j = (Inr (), dir(job_id j \<mapsto> Doc (to_dict j)))
   \<and> get (dir(job_id j \<mapsto> Doc (to_dict j))) (job_id j) = Inr (Some j)"
  by (simp add: save_job_def get_def from_dict_inverse)

lemma get_one_pending:
  "get one_pending ''job-20240101000000-0a1b2c3d'' = Inr (Some pending_job)"
  by (simp add: one_pending_def get_def from_dict_inverse)

lemma pending_job_fields:
  "status pending_job = PENDING \<and> job_id pending_job = ''job-20240101000000-0a1b2c3d''"
  by (simp add: pending_job_def create_def generate_id_def)

text \<open>
  What \<open>JobQueue.cancel\<close> does in each case. It refuses an id that \<open>get\<close> does not
  find and a job that is not pending, and leaves the directory as it was.
\<close>

lemma cancel_unknown:
  "get dir jid = Inr None \<Longrightarrow> JobQueue_cancel w now dir jid = (Inr False, dir)"
  by (simp add: JobQueue_cancel_def)

lemma cancel_not_pending:
  "get dir jid = Inr (Some j) \<Longrightarrow> status j \<noteq> PENDING
   \<Longrightarrow> JobQueue_cancel w now dir jid = (Inr False, dir)"
  by (simp add: JobQueue_cancel_def)

text \<open>An id whose path cannot be examined: \<open>get\<close> raises, and so does \<open>cancel\<close>.\<close>

lemma cancel_unreachable:
  "dir jid = Some (Unreachable m) \<Longrightarrow> JobQueue_cancel w now dir jid = (Inl (OSError m), dir)"
  by (simp add: JobQueue_cancel_def get_def)

text \<open>
  A pending job stored under its own id is cancelled when the write succeeds: the
  answer is True and the directory then holds the job with status CANCELLED and
  \<open>completed_at\<close> set.
\<close>

lemma cancel_pending_written:
  assumes "get dir jid = Inr (Some j)" and "status j = PENDING" and "job_id j = jid"
  shows "fst (JobQueue_cancel WriteOk now dir jid) = Inr True"
    and "get (snd (JobQueue_cancel WriteOk now dir jid)) jid = Inr (Some (cancel now j))"
    and "status (cancel now j) = CANCELLED"
    and "completed_at (cancel now j) = Some (timestamp now)"
proof -
  have id: "job_id (cancel now j) = jid"
    using assms(3) by (simp add: cancel_def)
  have run: "JobQueue_cancel WriteOk now dir jid
               = (Inr True, dir(jid \<mapsto> Doc (to_dict (cancel now j))))"
    using assms(1,2) id by (simp add: JobQueue_cancel_def update_def save_job_def)
  show "fst (JobQueue_cancel WriteOk now dir jid) = Inr True"
    by (simp add: run)
  show "get (snd (JobQueue_cancel WriteOk now dir jid)) jid = Inr (Some (cancel now j))"
    using get_after_save [of dir "cancel now j"] id by (simp add: run)
  show "status (cancel now j) = CANCELLED"
    by (simp add: cancel_def)
  show "completed_at (cancel now j) = Some (timestamp now)"
    by (simp add: cancel_def)
qed

text \<open>
  When the write fails, \<open>JobQueue.cancel\<close> on a pending job still answers True; the
  record on disk is the pending one (if \<open>open\<close> failed) or unreadable (if the dump
  failed).
\<close>

lemma cancel_pending_open_fails:
  "get dir jid = Inr (Some j) \<Longrightarrow> status j = PENDING
   \<Longrightarrow> JobQueue_cancel (OpenFails m) now dir jid = (Inr True, dir)"
  by (simp add: JobQueue_cancel_def update_def save_job_def)

lemma cancel_pending_dump_fails:
  "get dir jid = Inr (Some j) \<Longrightarrow> status j = PENDING \<Longrightarrow> job_id j = jid
   \<Longrightarrow> fst (JobQueue_cancel (DumpFails m) now dir jid) = Inr True
       \<and> get (snd (JobQueue_cancel (DumpFails m) now dir jid)) jid = Inr None"
  by (simp add: JobQueue_cancel_def update_def save_job_def get_def cancel_def)

text \<open>\<open>submit\<close> raises and \<open>update\<close> answers False when the write fails.\<close>

lemma submit_write_fails:
  "fst (submit (OpenFails m) c r n dir jt ps) = Inl (IOError m)
   \<and> fst (submit (DumpFails m) c r n dir jt ps) = Inl (IOError m)"
  by (simp add: submit_def save_job_def)

lemma update_write_fails:
  "fst (update (OpenFails m) dir j) = False \<and> fst (update (DumpFails m) dir j) = False"
  by (simp add: update_def save_job_def)

text \<open>
  C4. \<open>cancel(id)\<close> on a stored pending job whose write fails: the directory holds one
  pending job and \<open>open\<close> raises. The call answers True, the directory is unchanged,
  and the stored job is still pending with no \<open>completed_at\<close>.
\<close>

theorem cancel_true_without_transition:
  "JobQueue_cancel (OpenFails ''Permission denied'') ''2024-01-01T00:05:00'' one_pending
       ''job-20240101000000-0a1b2c3d'' = (Inr True, one_pending)
   \<and> get one_pending ''job-20240101000000-0a1b2c3d'' = Inr (Some pending_job)
   \<and> status pending_job = PENDING
   \<and> completed_at pending_job = None"
  using cancel_pending_open_fails [OF get_one_pending]
  by (simp add: get_one_pending pending_job_fields) (simp add: pending_job_def create_def)

text \<open>
  C8. The three writers of the store under a failing write (no space left on the
  device): \<open>submit\<close> raises IOError and \<open>update\<close> answers False, whereas \<open>cancel\<close> of
  the pending job answers True, as it does when the write succeeds.
\<close>

theorem cancel_drops_write_failure:
  "fst (submit (DumpFails ''No space left on device'') ''20240101000000'' ''0a1b2c3d''
          ''2024-01-01T00:00:00'' Map.empty FULL_PIPELINE [(''text'', JStr ''hello'')])
     = Inl (IOError ''No space left on device'')
   \<and> fst (update (DumpFails ''No space left on device'') one_pending
            (cancel ''2024-01-01T00:05:00'' pending_job)) = False
   \<and> fst (JobQueue_cancel (DumpFails ''No space left on device'') ''2024-01-01T00:05:00''
            one_pending ''job-20240101000000-0a1b2c3d'') = Inr True
   \<and> fst (JobQueue_cancel WriteOk ''2024-01-01T00:05:00''
            one_pending ''job-20240101000000-0a1b2c3d'') = Inr True"
  using cancel_pending_dump_fails [OF get_one_pending, of "''No space left on device''"]
    cancel_pending_written(1) [OF get_one_pending]
  by (simp add: submit_write_fails update_write_fails pending_job_fields)

section \<open>Properties of the VRAM ledger\<close>

lemma gpu_status_4096:
  "priv_cuda_available gpu_manager \<and> priv_torch gpu_manager
   \<and> cuda_available (get_status gpu_manager device_4096_free)
   \<and> free_mb (get_status gpu_manager device_4096_free) = 4096"
  by (simp add: gpu_manager_def VRAMManager_init_def device_4096_free_def get_status_def)

text \<open>
  When the manager has CUDA but the device query raises, \<open>get_status\<close> reports no
  CUDA and zero free memory, and \<open>can_load\<close> compares the requirement with
  \<open>0 - margin\<close>.
\<close>

lemma can_load_query_raises:
  "priv_cuda_available m \<Longrightarrow>
     get_status m (Raises msg) = no_cuda_status
     \<and> can_load m (Raises msg) need margin = (need \<le> - margin)"
  by (simp add: can_load_def get_status_def no_cuda_status_def Let_def)

text \<open>Only a manager constructed with CUDA can report a status with CUDA available.\<close>

lemma status_available_flag:
  "cuda_available (get_status m dev) \<Longrightarrow> priv_cuda_available m"
  by (auto simp: get_status_def no_cuda_status_def Let_def split: if_splits)

text \<open>
  C1, as stated, fails: on a manager constructed with CUDA whose device query raises,
  the status reports the accelerator unavailable, and \<open>can_load\<close> still refuses a
  requirement of 0 MB under the default margin.
\<close>

theorem can_load_refuses_when_status_unavailable:
  "\<not> cuda_available (get_status gpu_manager (Raises ''CUDA error''))
   \<and> \<not> can_load gpu_manager (Raises ''CUDA error'') 0 default_safety_margin_mb"
  by (simp add: gpu_manager_def VRAMManager_init_def get_status_def no_cuda_status_def
        can_load_def default_safety_margin_mb_def)

text \<open>
  C1, amended. \<open>can_load\<close> answers True exactly when the manager was constructed
  without CUDA or the free memory that \<open>get_status\<close> reports, less the safety margin,
  is at least the requirement. So when the status reports CUDA available it answers
  True for the requirements up to \<open>free - margin\<close> and False above; a manager
  constructed without CUDA answers True for every requirement; and when a manager
  constructed with CUDA gets a status without CUDA (the query failed) it answers True
  only for requirements up to \<open>- margin\<close>. On a successful query the free memory is
  the free bytes divided by \<open>1024 * 1024\<close>, rounded down.
\<close>

theorem can_load_by_flag:
  "(can_load m dev need margin
      \<longleftrightarrow> \<not> priv_cuda_available m \<or> need \<le> free_mb (get_status m dev) - margin)
   \<and> (cuda_available (get_status m dev) \<longrightarrow>
        (can_load m dev need margin \<longleftrightarrow> need \<le> free_mb (get_status m dev) - margin))
   \<and> (\<not> priv_cuda_available m \<longrightarrow> can_load m dev need margin)
   \<and> (priv_cuda_available m \<and> \<not> cuda_available (get_status m dev) \<longrightarrow>
        (can_load m dev need margin \<longleftrightarrow> need \<le> - margin))
   \<and> (priv_cuda_available m \<and> priv_torch m \<longrightarrow>
        (can_load m (Returns (mem_free, mem_total)) need margin
           \<longleftrightarrow> need \<le> mem_free div (1024 * 1024) - margin))"
proof -
  have iff: "can_load m dev need margin
      \<longleftrightarrow> \<not> priv_cuda_available m \<or> need \<le> free_mb (get_status m dev) - margin"
    by (simp add: can_load_def Let_def)
  have avail: "cuda_available (get_status m dev) \<longrightarrow>
        (can_load m dev need margin \<longleftrightarrow> need \<le> free_mb (get_status m dev) - margin)"
    using status_available_flag [of m dev] by (simp add: can_load_def Let_def)
  have cpu: "\<not> priv_cuda_available m \<longrightarrow> can_load m dev need margin"
    by (simp add: can_load_def)
  have failed: "priv_cuda_available m \<and> \<not> cuda_available (get_status m dev) \<longrightarrow>
        (can_load m dev need margin \<longleftrightarrow> need \<le> - margin)"
    by (cases dev) (auto simp: can_load_def get_status_def no_cuda_status_def Let_def)
  have bytes: "priv_cuda_available m \<and> priv_torch m \<longrightarrow>
        (can_load m (Returns (mem_free, mem_total)) need margin
           \<longleftrightarrow> need \<le> mem_free div (1024 * 1024) - margin)"
    by (simp add: can_load_def get_status_def Let_def)
  show ?thesis
    using iff avail cpu failed bytes by blast
qed

theorem can_load_by_flag_witness:
  "priv_cuda_available gpu_manager \<and> priv_torch gpu_manager
   \<and> cuda_available (get_status gpu_manager device_4096_free)
   \<and> free_mb (get_status gpu_manager device_4096_free) = 4096
   \<and> \<not> can_load gpu_manager device_4096_free 5000 default_safety_margin_mb
   \<and> can_load gpu_manager device_4096_free 3584 default_safety_margin_mb
   \<and> \<not> can_load gpu_manager device_4096_free 3585 default_safety_margin_mb
   \<and> \<not> priv_cuda_available cpu_manager
   \<and> can_load cpu_manager device_4096_free 999999999999 default_safety_margin_mb
   \<and> \<not> cuda_available (get_status gpu_manager (Raises ''CUDA error''))
   \<and> \<not> can_load gpu_manager (Raises ''CUDA error'') (- 511) default_safety_margin_mb
   \<and> can_load gpu_manager (Raises ''CUDA error'') (- 512) default_safety_margin_mb"
proof -
  have cpu: "\<not> priv_cuda_available cpu_manager"
    by (simp add: cpu_manager_def VRAMManager_init_def)
  have raised: "\<not> cuda_available (get_status gpu_manager (Raises ''CUDA error''))"
    and zero: "free_mb (get_status gpu_manager (Raises ''CUDA error'')) = 0"
    using can_load_query_raises [of gpu_manager "''CUDA error''"] gpu_status_4096
    by (simp_all add: no_cuda_status_def)
  show ?thesis
    using gpu_status_4096 cpu raised zero
      can_load_by_flag [of gpu_manager device_4096_free 5000 default_safety_margin_mb]
      can_load_by_flag [of gpu_manager device_4096_free 3584 default_safety_margin_mb]
      can_load_by_flag [of gpu_manager device_4096_free 3585 default_safety_margin_mb]
      can_load_by_flag [of cpu_manager device_4096_free 999999999999 default_safety_margin_mb]
      can_load_by_flag [of gpu_manager "Raises ''CUDA error''" "- 511" default_safety_margin_mb]
      can_load_by_flag [of gpu_manager "Raises ''CUDA error''" "- 512" default_safety_margin_mb]
    by (simp add: default_safety_margin_mb_def)
qed

section \<open>Properties of the pipeline coordinator\<close>








text \<open>When the \<open>try\<close> block reaches stage 6, the audio and the lip-sync paths are recorded.\<close>

lemma try_block_files:
  "stage1_load_profile env config avatar_image = (Inr encoding_result, st)
   \<Longrightarrow> \<exists>sr lr. synthesize_out env = Returns sr \<and> generate_out env = Returns lr
         \<and> files st = [(''audio'', syn_audio_path sr), (''lipsync'', lip_video_path lr)]"
  by (auto simp: stage1_load_profile_def stage2_synthesize_def stage3_validate_def
        stage4_lipsync_def stage5_encode_def Let_def
      split: outcome.splits prod.splits if_splits)

text \<open>
  \<open>_cleanup_files\<close> raises at the first recorded path that is unreadable, and leaves
  the set of unreadable paths as it was; so a cleanup that raised raises again, at the
  same path, when it is repeated on the disk it left.
\<close>

lemma cleanup_raises_at:
  "fst (cleanup_files d fs) = first_unreadable (unreadable d) fs"
  by (induction d fs rule: cleanup_files.induct) (auto split: option.splits)

lemma cleanup_keeps_unreadable:
  "unreadable (snd (cleanup_files d fs)) = unreadable d"
  by (induction d fs rule: cleanup_files.induct) (auto split: option.splits)

lemma cleanup_raises_again:
  assumes "cleanup_files d fs = (Some p, d1)"
  shows "fst (cleanup_files d1 fs) = Some p"
proof -
  have "unreadable d1 = unreadable d"
    using cleanup_keeps_unreadable [of d fs] assms by simp
  then show ?thesis
    using cleanup_raises_at [of d fs] cleanup_raises_at [of d1 fs] assms by simp
qed

lemma handler_after_stage6:
  assumes "cleanup_files d (files st) = (Some p, d1)" and "cleanup_intermediates config"
  shows "fst (except_handler env config d1 e st) = Inl (OSError p)"
proof -
  have nonempty: "files st \<noteq> []"
    using assms(1) by (cases "files st") auto
  obtain d2 where "cleanup_files d1 (files st) = (Some p, d2)"
    using cleanup_raises_again [OF assms(1)] by (cases "cleanup_files d1 (files st)") auto
  then show ?thesis
    using nonempty assms(2) by (simp add: except_handler_def)
qed

text \<open>A result that \<open>execute\<close> returns, in terms of how the \<open>try\<close> block ended.\<close>

lemma execute_success:
  assumes "stage1_load_profile env (case config_opt of None \<Rightarrow> PipelineConfig_default | Some c \<Rightarrow> c)
             avatar_image = (Inr encoding_result, st)"
    and "execute env d t vpid avatar_image out_path config_opt = (Inr r, cs, d')"
  shows "success r" and "stages_completed r = stages st" and "cs = calls st"
    and "pr_error r = None"
    and "intermediate_files r =
           (if cleanup_intermediates (case config_opt of None \<Rightarrow> PipelineConfig_default | Some c \<Rightarrow> c)
            then None else Some (files st))"
    and "\<not> cleanup_intermediates (case config_opt of None \<Rightarrow> PipelineConfig_default | Some c \<Rightarrow> c)
         \<Longrightarrow> d' = d"
proof -
  let ?config = "case config_opt of None \<Rightarrow> PipelineConfig_default | Some c \<Rightarrow> c"
  have no_raise: "cleanup_intermediates ?config \<Longrightarrow> fst (cleanup_files d (files st)) = None"
  proof (rule ccontr)
    assume c: "cleanup_intermediates ?config" and "fst (cleanup_files d (files st)) \<noteq> None"
    then obtain p d1 where raised: "cleanup_files d (files st) = (Some p, d1)"
      by (cases "cleanup_files d (files st)") auto
    have "fst (execute env d t vpid avatar_image out_path config_opt) = Inl (OSError p)"
      using assms(1) c raised handler_after_stage6 [OF raised c]
      by (simp add: execute_def Let_def)
    then show False
      using assms(2) by simp
  qed
  have result: "r = \<lparr> success = True, pr_job_id = None, output_path = Some out_path,
                      duration_seconds = enc_duration_seconds encoding_result,
                      stages_completed = stages st, pr_error = None,
                      processing_time_seconds = elapsed env,
                      intermediate_files =
                        (if cleanup_intermediates ?config then None else Some (files st)) \<rparr>
                \<and> cs = calls st \<and> (\<not> cleanup_intermediates ?config \<longrightarrow> d' = d)"
  proof (cases "cleanup_intermediates ?config")
    case True
    then obtain d1 where "cleanup_files d (files st) = (None, d1)"
      using no_raise by (cases "cleanup_files d (files st)") auto
    then show ?thesis
      using assms True by (simp add: execute_def Let_def)
  next
    case False
    then show ?thesis
      using assms by (simp add: execute_def Let_def)
  qed
  show "success r" and "stages_completed r = stages st" and "cs = calls st"
    and "pr_error r = None"
    and "intermediate_files r = (if cleanup_intermediates ?config then None else Some (files st))"
    and "\<not> cleanup_intermediates ?config \<Longrightarrow> d' = d"
    using result by simp_all
qed

lemma execute_failure:
  assumes "stage1_load_profile env (case config_opt of None \<Rightarrow> PipelineConfig_default | Some c \<Rightarrow> c)
             avatar_image = (Inl e, st)"
    and "execute env d t vpid avatar_image out_path config_opt = (Inr r, cs, d')"
  shows "\<not> success r" and "stages_completed r = stages st" and "cs = calls st"
    and "pr_error r = Some e" and "intermediate_files r = None"
  using assms
  by (auto simp: execute_def except_handler_def failure_result_def Let_def
      split: if_splits prod.splits option.splits)

text \<open>
  A failed run that returns a result returns no map of intermediate files, whether or
  not cleanup was requested.
\<close>

lemma failed_run_returns_no_map:
  assumes "execute env d t vpid avatar_image out_path config_opt = (Inr r, cs, d')"
    and "\<not> success r"
  shows "intermediate_files r = None"
proof (cases "stage1_load_profile env
                (case config_opt of None \<Rightarrow> PipelineConfig_default | Some c \<Rightarrow> c) avatar_image")
  case (Pair ended st)
  then show ?thesis
    using assms execute_success(1) [OF _ assms(1)] execute_failure(5) [OF _ assms(1)]
    by (cases ended) auto
qed

text \<open>Runs, evaluated.\<close>

lemma run_all_succeed:
  "execute (all_succeed 8) temp_disk ''Hello'' ''vp-12345678'' ''avatar.png'' ''out/video.mp4'' None
     = (Inr \<lparr> success = True, pr_job_id = None, output_path = Some ''out/video.mp4'',
           duration_seconds = Finite 8,
           stages_completed = [''load_profile'', ''synthesize_speech'', ''validate_avatar'',
                               ''generate_lipsync'', ''encode_video''],
           pr_error = None, processing_time_seconds = Finite 50,
           intermediate_files = None \<rparr>,
        [CallLoadProfile, CallSynthesize, CallAvatarExists, CallDetect, CallValidateForLipsync,
         CallGenerate, CallMkdir, CallEncode],
        \<lparr> existing = [], undeletable = [], unreadable = [] \<rparr>)"
  by (simp add: execute_def stage1_load_profile_def stage2_synthesize_def stage3_validate_def
        stage4_lipsync_def stage5_encode_def Let_def all_succeed_def audio_of_def
        PipelineConfig_default_def temp_disk_def py_gt_def)

lemma run_keep_intermediates:
  "execute (all_succeed 8) temp_disk ''Hello'' ''vp-12345678'' ''avatar.png'' ''out/video.mp4''
       (Some keep_intermediates)
     = (Inr \<lparr> success = True, pr_job_id = None, output_path = Some ''out/video.mp4'',
           duration_seconds = Finite 8,
           stages_completed = [''load_profile'', ''synthesize_speech'', ''validate_avatar'',
                               ''generate_lipsync'', ''encode_video''],
           pr_error = None, processing_time_seconds = Finite 50,
           intermediate_files = Some [(''audio'', Some ''temp/speech_1.wav''),
                                      (''lipsync'', Some ''temp/lipsync_1.mp4'')] \<rparr>,
        [CallLoadProfile, CallSynthesize, CallAvatarExists, CallDetect, CallValidateForLipsync,
         CallGenerate, CallMkdir, CallEncode],
        temp_disk)"
  by (simp add: execute_def stage1_load_profile_def stage2_synthesize_def stage3_validate_def
        stage4_lipsync_def stage5_encode_def Let_def all_succeed_def audio_of_def
        PipelineConfig_default_def keep_intermediates_def py_gt_def)

lemma run_too_long:
  "execute (all_succeed 15) temp_disk ''Hello'' ''vp-12345678'' ''avatar.png'' ''out/video.mp4''
       (Some max_10_seconds)
     = (Inr \<lparr> success = False, pr_job_id = None, output_path = None,
           duration_seconds = Finite 0,
           stages_completed = [''load_profile'', ''synthesize_speech''],
           pr_error = Some (AudioTooLong (Finite 15) 10), processing_time_seconds = Finite 50,
           intermediate_files = None \<rparr>,
        [CallLoadProfile, CallSynthesize],
        \<lparr> existing = [''temp/lipsync_1.mp4''], undeletable = [], unreadable = [] \<rparr>)"
  by (simp add: execute_def except_handler_def failure_result_def stage1_load_profile_def
        stage2_synthesize_def Let_def all_succeed_def audio_of_def PipelineConfig_default_def
        max_10_seconds_def temp_disk_def py_gt_def)


lemma recorded_too_long:
  "recorded_files (all_succeed 15) max_10_seconds ''avatar.png''
     = [(''audio'', Some ''temp/speech_1.wav'')]"
  by (simp add: recorded_files_def stage1_load_profile_def stage2_synthesize_def Let_def
        all_succeed_def audio_of_def PipelineConfig_default_def max_10_seconds_def py_gt_def)




text \<open>
  The duration limit. When the profile loads and the synthesis succeeds with audio
  longer than the configured maximum, the \<open>try\<close> block ends with the duration-limit
  error right after stage 2, with the audio path recorded and no further call.
\<close>

lemma too_long_try_block:
  assumes "load_profile_out env = Returns voice_profile"
    and "synthesize_out env = Returns sr"
    and "syn_success sr"
    and "py_gt (syn_duration_seconds sr) (Finite (real_of_int (max_video_length_seconds config)))"
  shows "stage1_load_profile env config avatar_image
           = (Inl (AudioTooLong (syn_duration_seconds sr) (max_video_length_seconds config)),
              \<lparr> stages = [''load_profile'', ''synthesize_speech''],
                files = [(''audio'', syn_audio_path sr)],
                calls = [CallLoadProfile, CallSynthesize] \<rparr>)"
  using assms by (simp add: stage1_load_profile_def stage2_synthesize_def Let_def)

text \<open>
  If \<open>execute\<close> then returns a result, it is the duration-limit failure with the two
  stages and only the two calls; the maximum is 120 seconds when no configuration is
  given.
\<close>

lemma duration_limit_when_returned:
  assumes "load_profile_out env = Returns voice_profile"
    and "synthesize_out env = Returns sr"
    and "syn_success sr"
    and "config = (case config_opt of None \<Rightarrow> PipelineConfig_default | Some c \<Rightarrow> c)"
    and "py_gt (syn_duration_seconds sr) (Finite (real_of_int (max_video_length_seconds config)))"
    and "execute env d t vpid avatar_image out_path config_opt = (Inr r, cs, d')"
  shows "\<not> success r
         \<and> pr_error r = Some (AudioTooLong (syn_duration_seconds sr) (max_video_length_seconds config))
         \<and> stages_completed r = [''load_profile'', ''synthesize_speech'']
         \<and> cs = [CallLoadProfile, CallSynthesize]
         \<and> max_video_length_seconds PipelineConfig_default = 120"
proof -
  have run: "stage1_load_profile env
               (case config_opt of None \<Rightarrow> PipelineConfig_default | Some c \<Rightarrow> c) avatar_image
             = (Inl (AudioTooLong (syn_duration_seconds sr) (max_video_length_seconds config)),
                \<lparr> stages = [''load_profile'', ''synthesize_speech''],
                  files = [(''audio'', syn_audio_path sr)],
                  calls = [CallLoadProfile, CallSynthesize] \<rparr>)"
    using too_long_try_block [OF assms(1,2,3,5)] assms(4) by simp
  show ?thesis
    using execute_failure [OF run assms(6)] by (simp add: PipelineConfig_default_def)
qed

text \<open>
  It returns a result when cleanup is not requested, when the synthesis reported no
  audio path, and when the audio path can be examined. When cleanup is requested and
  \<open>exists()\<close> raises for the audio path, \<open>execute\<close> raises that OSError out of its
  \<open>except\<close> branch and returns nothing.
\<close>

lemma duration_limit_returns:
  assumes "load_profile_out env = Returns voice_profile"
    and "synthesize_out env = Returns sr"
    and "syn_success sr"
    and "config = (case config_opt of None \<Rightarrow> PipelineConfig_default | Some c \<Rightarrow> c)"
    and "py_gt (syn_duration_seconds sr) (Finite (real_of_int (max_video_length_seconds config)))"
    and "\<not> cleanup_intermediates config \<or> syn_audio_path sr = None
         \<or> (\<exists>p. syn_audio_path sr = Some p \<and> p \<notin> set (unreadable d))"
  shows "\<exists>r d'. execute env d t vpid avatar_image out_path config_opt
                  = (Inr r, [CallLoadProfile, CallSynthesize], d')"
proof -
  have run: "stage1_load_profile env
               (case config_opt of None \<Rightarrow> PipelineConfig_default | Some c \<Rightarrow> c) avatar_image
             = (Inl (AudioTooLong (syn_duration_seconds sr) (max_video_length_seconds config)),
                \<lparr> stages = [''load_profile'', ''synthesize_speech''],
                  files = [(''audio'', syn_audio_path sr)],
                  calls = [CallLoadProfile, CallSynthesize] \<rparr>)"
    using too_long_try_block [OF assms(1,2,3,5)] assms(4) by simp
  show ?thesis
    using assms(4,6) run
    by (auto simp: execute_def except_handler_def Let_def split: option.splits prod.splits)
qed

lemma duration_limit_raises:
  assumes "load_profile_out env = Returns voice_profile"
    and "synthesize_out env = Returns sr"
    and "syn_success sr"
    and "config = (case config_opt of None \<Rightarrow> PipelineConfig_default | Some c \<Rightarrow> c)"
    and "py_gt (syn_duration_seconds sr) (Finite (real_of_int (max_video_length_seconds config)))"
    and "cleanup_intermediates config"
    and "syn_audio_path sr = Some p" and "p \<in> set (unreadable d)"
  shows "execute env d t vpid avatar_image out_path config_opt
           = (Inl (OSError p), [CallLoadProfile, CallSynthesize], d)"
proof -
  have run: "stage1_load_profile env
               (case config_opt of None \<Rightarrow> PipelineConfig_default | Some c \<Rightarrow> c) avatar_image
             = (Inl (AudioTooLong (syn_duration_seconds sr) (max_video_length_seconds config)),
                \<lparr> stages = [''load_profile'', ''synthesize_speech''],
                  files = [(''audio'', syn_audio_path sr)],
                  calls = [CallLoadProfile, CallSynthesize] \<rparr>)"
    using too_long_try_block [OF assms(1,2,3,5)] assms(4) by simp
  show ?thesis
    using assms(4,6,7,8) run by (simp add: execute_def except_handler_def Let_def)
qed

text \<open>
  C6. The synthesis produces 15 seconds of audio against a maximum of 10, cleanup is
  requested (the default), and the directory of the audio file can no longer be
  searched, so that \<open>exists()\<close> raises for it. \<open>execute\<close> attempts the profile load
  and the synthesis only, and then raises OSError instead of returning the failure
  with the duration-limit error. On the same input with a readable disk it returns
  that failure, with the stages \<open>load_profile\<close> and \<open>synthesize_speech\<close>.
\<close>

theorem duration_limit_run_raises:
  "execute (all_succeed 15) locked_temp_disk ''Hello'' ''vp-12345678'' ''avatar.png''
       ''out/video.mp4'' (Some max_10_seconds)
     = (Inl (OSError ''temp/speech_1.wav''), [CallLoadProfile, CallSynthesize], locked_temp_disk)
   \<and> execute (all_succeed 15) temp_disk ''Hello'' ''vp-12345678'' ''avatar.png''
       ''out/video.mp4'' (Some max_10_seconds)
     = (Inr \<lparr> success = False, pr_job_id = None, output_path = None,
           duration_seconds = Finite 0,
           stages_completed = [''load_profile'', ''synthesize_speech''],
           pr_error = Some (AudioTooLong (Finite 15) 10), processing_time_seconds = Finite 50,
           intermediate_files = None \<rparr>,
        [CallLoadProfile, CallSynthesize],
        \<lparr> existing = [''temp/lipsync_1.mp4''], undeletable = [], unreadable = [] \<rparr>)"
proof -
  have h1: "load_profile_out (all_succeed 15) = Returns sample_profile"
    and h2: "synthesize_out (all_succeed 15) = Returns (audio_of 15)"
    by (simp_all add: all_succeed_def)
  have h3: "syn_success (audio_of 15)"
    and h7: "syn_audio_path (audio_of 15) = Some ''temp/speech_1.wav''"
    by (simp_all add: audio_of_def)
  have h4: "max_10_seconds = (case Some max_10_seconds of None \<Rightarrow> PipelineConfig_default | Some c \<Rightarrow> c)"
    by simp
  have h5: "py_gt (syn_duration_seconds (audio_of 15))
              (Finite (real_of_int (max_video_length_seconds max_10_seconds)))"
    by (simp add: audio_of_def max_10_seconds_def py_gt_def)
  have h6: "cleanup_intermediates max_10_seconds"
    by (simp add: max_10_seconds_def PipelineConfig_default_def)
  have h8: "''temp/speech_1.wav'' \<in> set (unreadable locked_temp_disk)"
    by (simp add: locked_temp_disk_def)
  show ?thesis
    using duration_limit_raises [OF h1 h2 h3 h4 h5 h6 h7 h8] run_too_long by simp
qed

text \<open>
  C3, as stated, fails: a run that fails after the audio path was recorded (15 seconds
  of audio against a maximum of 10, cleanup requested) returns no map of intermediate
  files.
\<close>

theorem failed_run_has_no_map:
  "execute (all_succeed 15) temp_disk ''Hello'' ''vp-12345678'' ''avatar.png''
       ''out/video.mp4'' (Some max_10_seconds)
     = (Inr \<lparr> success = False, pr_job_id = None, output_path = None,
           duration_seconds = Finite 0,
           stages_completed = [''load_profile'', ''synthesize_speech''],
           pr_error = Some (AudioTooLong (Finite 15) 10), processing_time_seconds = Finite 50,
           intermediate_files = None \<rparr>,
        [CallLoadProfile, CallSynthesize],
        \<lparr> existing = [''temp/lipsync_1.mp4''], undeletable = [], unreadable = [] \<rparr>)
   \<and> recorded_files (all_succeed 15) max_10_seconds ''avatar.png''
       = [(''audio'', Some ''temp/speech_1.wav'')]"
  by (simp add: run_too_long recorded_too_long)

text \<open>
  C3, amended. A successful run for which cleanup was not requested returns the map of
  the recorded intermediate files, which holds the audio path and the lip-sync path, and
  deletes nothing. A run for which cleanup was requested, successful or failed, returns
  no map.
\<close>

theorem intermediate_files_kept:
  assumes "execute env d t vpid avatar_image out_path config_opt = (Inr r, cs, d')"
    and "config = (case config_opt of None \<Rightarrow> PipelineConfig_default | Some c \<Rightarrow> c)"
  shows "(success r \<and> \<not> cleanup_intermediates config \<longrightarrow>
            intermediate_files r = Some (recorded_files env config avatar_image)
            \<and> (\<exists>sr lr. synthesize_out env = Returns sr \<and> generate_out env = Returns lr
                  \<and> recorded_files env config avatar_image
                      = [(''audio'', syn_audio_path sr), (''lipsync'', lip_video_path lr)])
            \<and> d' = d)
         \<and> (cleanup_intermediates config \<longrightarrow> intermediate_files r = None)"
proof (cases "stage1_load_profile env config avatar_image")
  case (Pair ended st)
  show ?thesis
  proof (cases ended)
    case (Inr encoding_result)
    with Pair assms(2) have run: "stage1_load_profile env
        (case config_opt of None \<Rightarrow> PipelineConfig_default | Some c \<Rightarrow> c) avatar_image
          = (Inr encoding_result, st)"
      by simp
    have rec: "recorded_files env config avatar_image = files st"
      using run assms(2) by (simp add: recorded_files_def)
    show ?thesis
      using execute_success(5,6) [OF run assms(1)] try_block_files [OF run] rec assms(2)
      by auto
  next
    case (Inl e)
    with Pair assms(2) have run: "stage1_load_profile env
        (case config_opt of None \<Rightarrow> PipelineConfig_default | Some c \<Rightarrow> c) avatar_image
          = (Inl e, st)"
      by simp
    show ?thesis
      using execute_failure(1,5) [OF run assms(1)] by simp
  qed
qed

theorem intermediate_files_kept_witness:
  "execute (all_succeed 8) temp_disk ''Hello'' ''vp-12345678'' ''avatar.png'' ''out/video.mp4''
       (Some keep_intermediates)
     = (Inr \<lparr> success = True, pr_job_id = None, output_path = Some ''out/video.mp4'',
           duration_seconds = Finite 8,
           stages_completed = [''load_profile'', ''synthesize_speech'', ''validate_avatar'',
                               ''generate_lipsync'', ''encode_video''],
           pr_error = None, processing_time_seconds = Finite 50,
           intermediate_files = Some [(''audio'', Some ''temp/speech_1.wav''),
                                      (''lipsync'', Some ''temp/lipsync_1.mp4'')] \<rparr>,
        [CallLoadProfile, CallSynthesize, CallAvatarExists, CallDetect, CallValidateForLipsync,
         CallGenerate, CallMkdir, CallEncode],
        temp_disk)
   \<and> \<not> cleanup_intermediates keep_intermediates
   \<and> recorded_files (all_succeed 8) keep_intermediates ''avatar.png''
       = [(''audio'', Some ''temp/speech_1.wav''), (''lipsync'', Some ''temp/lipsync_1.mp4'')]
   \<and> cleanup_intermediates PipelineConfig_default
   \<and> intermediate_files
        \<lparr> success = True, pr_job_id = None, output_path = Some ''out/video.mp4'',
           duration_seconds = Finite 8,
           stages_completed = [''load_profile'', ''synthesize_speech'', ''validate_avatar'',
                               ''generate_lipsync'', ''encode_video''],
           pr_error = None, processing_time_seconds = Finite 50,
           intermediate_files = None \<rparr> = None"
proof -
  have k: "keep_intermediates
             = (case Some keep_intermediates of None \<Rightarrow> PipelineConfig_default | Some c \<Rightarrow> c)"
    and n: "PipelineConfig_default
             = (case None of None \<Rightarrow> PipelineConfig_default | Some c \<Rightarrow> c)"
    by simp_all
  have c: "\<not> cleanup_intermediates keep_intermediates"
    "cleanup_intermediates PipelineConfig_default"
    by (simp_all add: keep_intermediates_def PipelineConfig_default_def)
  have kept: "recorded_files (all_succeed 8) keep_intermediates ''avatar.png''
       = [(''audio'', Some ''temp/speech_1.wav''), (''lipsync'', Some ''temp/lipsync_1.mp4'')]"
    using intermediate_files_kept [OF run_keep_intermediates k, THEN conjunct1] c(1)
    by simp
  have dropped: "intermediate_files
        \<lparr> success = True, pr_job_id = None, output_path = Some ''out/video.mp4'',
           duration_seconds = Finite 8,
           stages_completed = [''load_profile'', ''synthesize_speech'', ''validate_avatar'',
                               ''generate_lipsync'', ''encode_video''],
           pr_error = None, processing_time_seconds = Finite 50,
           intermediate_files = None \<rparr> = None"
    using intermediate_files_kept [OF run_all_succeed n, THEN conjunct2] c(2) by simp
  show ?thesis
    using run_keep_intermediates c kept dropped by blast
qed

end
